theory Spec2Isabelle
  imports Complex_Main
begin

section \<open>Decoded JSON values\<close>

text \<open>
  The handler \<^verbatim>\<open>chat\<close> of \<^verbatim>\<open>src/app.py\<close> works on the value that
  \<^verbatim>\<open>request.get_json(force=True)\<close> returns: a Python value decoded from JSON. A decoded
  object is a Python dict; it is represented by an association list that is read with
  \<open>map_of\<close>. A decoded number is an \<^verbatim>\<open>int\<close> or a finite \<^verbatim>\<open>float\<close> (the value of a
  finite float is a rational number); the non-finite floats are left out.
\<close>

datatype json =
    JNull
  | JBool bool
  | JInt int
  | JFloat rat
  | JStr string
  | JArr "json list"
  | JObj "(string \<times> json) list"

text \<open>The exceptions that the expressions of line 89 can raise.\<close>

datatype exn = AttributeError | TypeError | KeyError | IndexError

text \<open>Python's truth value of a decoded value (\<^verbatim>\<open>if x\<close>, \<^verbatim>\<open>not x\<close>).\<close>

fun py_truthy :: "json \<Rightarrow> bool" where
  "py_truthy JNull = False"
| "py_truthy (JBool b) = b"
| "py_truthy (JInt i) = (i \<noteq> 0)"
| "py_truthy (JFloat r) = (r \<noteq> 0)"
| "py_truthy (JStr s) = (s \<noteq> [])"
| "py_truthy (JArr xs) = (xs \<noteq> [])"
| "py_truthy (JObj kvs) = (kvs \<noteq> [])"

text \<open>
  \<^verbatim>\<open>x.get(key, default)\<close>: only a dict has the method \<^verbatim>\<open>get\<close>; on every other
  decoded value the attribute lookup raises \<^verbatim>\<open>AttributeError\<close>.
\<close>

fun py_get :: "json \<Rightarrow> string \<Rightarrow> json \<Rightarrow> exn + json" where
  "py_get (JObj kvs) key dflt =
     Inr (case map_of kvs key of None \<Rightarrow> dflt | Some v \<Rightarrow> v)"
| "py_get _ key dflt = Inl AttributeError"

text \<open>
  \<^verbatim>\<open>x[-1]\<close>: the last element of a list, the last character of a string (as a string),
  \<^verbatim>\<open>IndexError\<close> when either is empty; a dict decoded from JSON has string keys only, so
  the key \<^verbatim>\<open>-1\<close> is missing (\<^verbatim>\<open>KeyError\<close>); the other values are not subscriptable
  (\<^verbatim>\<open>TypeError\<close>).
\<close>

fun py_index_last :: "json \<Rightarrow> exn + json" where
  "py_index_last (JArr xs) = (if xs = [] then Inl IndexError else Inr (last xs))"
| "py_index_last (JStr s) = (if s = [] then Inl IndexError else Inr (JStr [last s]))"
| "py_index_last (JObj kvs) = Inl KeyError"
| "py_index_last _ = Inl TypeError"

text \<open>
  Line 89:
  \<^verbatim>\<open>data.get("messages", [])[-1].get("content", "") if data.get("messages") else ""\<close>.
  The condition is evaluated first.
\<close>

definition extract_user_message :: "json \<Rightarrow> exn + json" where
  "extract_user_message data =
     (case py_get data ''messages'' JNull of
        Inl e \<Rightarrow> Inl e
      | Inr c \<Rightarrow>
          if py_truthy c then
            (case py_get data ''messages'' (JArr []) of
               Inl e \<Rightarrow> Inl e
             | Inr msgs \<Rightarrow>
                 (case py_index_last msgs of
                    Inl e \<Rightarrow> Inl e
                  | Inr l \<Rightarrow> py_get l ''content'' (JStr [])))
          else Inr (JStr []))"

section \<open>Conversations, the object store and the history dictionary\<close>

datatype role = User | Assistant

type_synonym turn = "role \<times> json"

type_synonym conversation = "turn list"

text \<open>
  \<^verbatim>\<open>conversation_history\<close> is a dict from user identifiers to Conversation objects. The
  handler mutates such an object through a local variable that may alias a stored one, so
  the objects live in an explicit store: \<open>objects\<close> maps an address to the turns of the
  object there, \<open>next_ref\<close> is the next unused address, and the dict holds addresses.
\<close>

record state =
  conversation_history :: "string \<rightharpoonup> nat"
  objects :: "nat \<Rightarrow> conversation"
  next_ref :: nat

definition init_state :: state where
  "init_state = \<lparr>conversation_history = Map.empty, objects = (\<lambda>_. []), next_ref = 0\<rparr>"

text \<open>The conversation stored for a user: the object that the dict entry points to.\<close>

definition stored :: "state \<Rightarrow> string \<Rightarrow> conversation option" where
  "stored s u = map_option (objects s) (conversation_history s u)"

text \<open>
  Modelled from the spec: \<^verbatim>\<open>create_new_conversation\<close> is a method of the pipeline object
  of the \<^verbatim>\<open>transformers\<close> library, whose code is not among the sources. As the
  specification's \<^verbatim>\<open>get_or_create\<close> says, it returns a new empty conversation: a new
  object, at an address that no other object has.
\<close>

definition create_new_conversation :: "state \<Rightarrow> nat \<times> state" where
  "create_new_conversation s =
     (next_ref s, s\<lparr>objects := (objects s)(next_ref s := []), next_ref := Suc (next_ref s)\<rparr>)"

text \<open>
  Modelled from the spec: \<^verbatim>\<open>add_user_message\<close> is a method of the library's Conversation
  class, whose code is not among the sources. As the specification's
  \<^verbatim>\<open>append_user_turn\<close> says, it appends a user turn with the given payload, unvalidated.
  The handler discards the result of the call and goes on with the same object, so the
  turn is appended to the object in place.
\<close>

definition add_user_message :: "nat \<Rightarrow> json \<Rightarrow> state \<Rightarrow> state" where
  "add_user_message r text s = s\<lparr>objects := (objects s)(r := objects s r @ [(User, text)])\<rparr>"

text \<open>
  Modelled from the spec: \<^verbatim>\<open>add_ai_response\<close> is a method of the library's Conversation
  class, whose code is not among the sources. As the specification's
  \<^verbatim>\<open>append_assistant_turn\<close> says, it appends an assistant turn, in place as above.
\<close>

definition add_ai_response :: "nat \<Rightarrow> string \<Rightarrow> state \<Rightarrow> state" where
  "add_ai_response r text s =
     s\<lparr>objects := (objects s)(r := objects s r @ [(Assistant, JStr text)])\<rparr>"

text \<open>
  The loaded pipeline is a parameter of the handler. The specification describes it as an
  opaque, fallible function from a conversation to a reply: it is a function from the turns
  of the conversation it is called on to either the text of the exception it raises
  (\<^verbatim>\<open>str(e)\<close>) or the list \<^verbatim>\<open>generated_responses\<close> of the object it returns; it does
  not change the conversation it is called on.
\<close>

type_synonym pipeline = "conversation \<Rightarrow> string + string list"

section \<open>The handler\<close>

datatype http_method = POST | OPTIONS

record request =
  req_method :: http_method
  req_user_id :: "string option"
  req_json :: json

type_synonym response = "nat \<times> json"

text \<open>\<^verbatim>\<open>request.headers.get('User-ID', 'default_user')\<close>\<close>

definition user_id_of :: "request \<Rightarrow> string" where
  "user_id_of req = (case req_user_id req of None \<Rightarrow> ''default_user'' | Some u \<Rightarrow> u)"

text \<open>
  The f-string of the echo formats the message with \<^verbatim>\<open>str\<close>: a string is inserted as
  it is; Python's rendering of the other values is the parameter \<open>fmt\<close>.
\<close>

definition py_format :: "(json \<Rightarrow> string) \<Rightarrow> json \<Rightarrow> string" where
  "py_format fmt v = (case v of JStr s \<Rightarrow> s | _ \<Rightarrow> fmt v)"

definition error_body :: "string \<Rightarrow> json" where
  "error_body msg = JObj [(''error'', JStr msg)]"

definition response_body :: "string \<Rightarrow> json" where
  "response_body text = JObj [(''response'', JStr text)]"

text \<open>
  Lines 95 to 137, when the pipeline is loaded. The default argument of \<^verbatim>\<open>dict.get\<close>
  is evaluated before the lookup, so a new conversation is created on every call.
  An exception inside the \<^verbatim>\<open>try\<close> block returns the 500 response from the state
  reached at that point; \<^verbatim>\<open>[-1]\<close> on an empty \<^verbatim>\<open>generated_responses\<close> raises
  \<^verbatim>\<open>IndexError\<close> there.
\<close>

definition generate_and_store ::
  "pipeline \<Rightarrow> string \<Rightarrow> json \<Rightarrow> state \<Rightarrow> response \<times> state" where
  "generate_and_store conversational_pipeline user_id user_message s =
     (let (fresh, s1) = create_new_conversation s;
          history = (case conversation_history s1 user_id of None \<Rightarrow> fresh | Some r \<Rightarrow> r);
          s2 = add_user_message history user_message s1
      in case conversational_pipeline (objects s2 history) of
           Inl e \<Rightarrow> ((500, error_body e), s2)
         | Inr generated_responses \<Rightarrow>
             if generated_responses = [] then
               ((500, error_body ''list index out of range''), s2)
             else
               let ai_response = last generated_responses;
                   s3 = add_ai_response history ai_response s2
               in ((200, response_body ai_response),
                   s3\<lparr>conversation_history := (conversation_history s3)(user_id \<mapsto> history)\<rparr>))"

text \<open>
  The handler \<^verbatim>\<open>chat\<close>. The result is \<open>Inl\<close> of the exception that leaves the handler
  uncaught, or \<open>Inr\<close> of the status and the JSON body it returns. The global
  \<^verbatim>\<open>conversational_pipeline\<close> is \<open>None\<close> when loading failed.
\<close>

definition chat ::
  "(json \<Rightarrow> string) \<Rightarrow> pipeline option \<Rightarrow> request \<Rightarrow> state \<Rightarrow> (exn + response) \<times> state" where
  "chat fmt conversational_pipeline req s =
     (if req_method req = OPTIONS then (Inr (200, JObj []), s)
      else
        case extract_user_message (req_json req) of
          Inl e \<Rightarrow> (Inl e, s)
        | Inr user_message \<Rightarrow>
            if \<not> py_truthy user_message then
              (Inr (400, error_body ''Please provide a message''), s)
            else
              (case conversational_pipeline of
                 Some p \<Rightarrow>
                   (let (resp, s') = generate_and_store p (user_id_of req) user_message s
                    in (Inr resp, s'))
               | None \<Rightarrow>
                   (Inr (200, response_body
                       (''Echo: '' @ py_format fmt user_message @
                        '' (Conversational AI not loaded)'')), s)))"

text \<open>A sequence of requests handled one after the other.\<close>

fun run :: "(json \<Rightarrow> string) \<Rightarrow> pipeline option \<Rightarrow> request list \<Rightarrow> state \<Rightarrow> state" where
  "run fmt pl [] s = s"
| "run fmt pl (req # reqs) s = run fmt pl reqs (snd (chat fmt pl req s))"

text \<open>
  The turns stored for a user, none when the dict has no entry for the user.
\<close>

definition turns_of :: "state \<Rightarrow> string \<Rightarrow> conversation" where
  "turns_of s u = (case stored s u of None \<Rightarrow> [] | Some c \<Rightarrow> c)"

text \<open>
  Every address in the dict has been handed out by \<open>create_new_conversation\<close>. This holds
  in the initial state and after every call of the handler (\<open>init_state_wf\<close>, \<open>chat_wf\<close>
  below), so it holds in every state the process reaches.
\<close>

definition wf_state :: "state \<Rightarrow> bool" where
  "wf_state s = (\<forall>u r. conversation_history s u = Some r \<longrightarrow> r < next_ref s)"

text \<open>Turns alternate, starting with a user turn.\<close>

fun other_role :: "role \<Rightarrow> role" where
  "other_role User = Assistant"
| "other_role Assistant = User"

fun alternates_from :: "role \<Rightarrow> conversation \<Rightarrow> bool" where
  "alternates_from r [] = True"
| "alternates_from r (t # ts) = (fst t = r \<and> alternates_from (other_role r) ts)"

definition alternates :: "conversation \<Rightarrow> bool" where
  "alternates c = alternates_from User c"

section \<open>Overlapping requests\<close>

text \<open>
  The host may run one invocation of the handler per request, and two invocations may
  overlap in time; all of them work on the same \<^verbatim>\<open>conversation_history\<close> and the same
  objects. For a request that has passed line 93 with a loaded pipeline, the handler is
  split at its accesses to this shared state: the lookup of lines 99 to 101, the call of
  \<^verbatim>\<open>add_user_message\<close> of line 105, the call of the pipeline and the reading of its last
  generated response of lines 109 to 114, the call of \<^verbatim>\<open>add_ai_response\<close> of line 119,
  and the assignment of line 120 followed by the return of line 123. \<open>progress\<close> says
  which of these comes next for a request, with the values of its local variables
  \<^verbatim>\<open>history\<close> and \<^verbatim>\<open>ai_response\<close>; \<open>Returned\<close> holds the response of a request that
  has left the handler (a further step of it does nothing).
\<close>

datatype progress =
    AtLookup
  | AtAddUser nat
  | AtGenerate nat
  | AtAddReply nat string
  | AtStore nat string
  | Returned response

fun handler_step ::
  "pipeline \<Rightarrow> string \<Rightarrow> json \<Rightarrow> progress \<Rightarrow> state \<Rightarrow> progress \<times> state" where
  "handler_step conversational_pipeline user_id user_message AtLookup s =
     (let (fresh, s1) = create_new_conversation s;
          history = (case conversation_history s1 user_id of None \<Rightarrow> fresh | Some r \<Rightarrow> r)
      in (AtAddUser history, s1))"
| "handler_step conversational_pipeline user_id user_message (AtAddUser history) s =
     (AtGenerate history, add_user_message history user_message s)"
| "handler_step conversational_pipeline user_id user_message (AtGenerate history) s =
     (case conversational_pipeline (objects s history) of
        Inl e \<Rightarrow> (Returned (500, error_body e), s)
      | Inr generated_responses \<Rightarrow>
          if generated_responses = [] then
            (Returned (500, error_body ''list index out of range''), s)
          else (AtAddReply history (last generated_responses), s))"
| "handler_step conversational_pipeline user_id user_message (AtAddReply history ai_response) s =
     (AtStore history ai_response, add_ai_response history ai_response s)"
| "handler_step conversational_pipeline user_id user_message (AtStore history ai_response) s =
     (Returned (200, response_body ai_response),
      s\<lparr>conversation_history := (conversation_history s)(user_id \<mapsto> history)\<rparr>)"
| "handler_step conversational_pipeline user_id user_message (Returned resp) s =
     (Returned resp, s)"

text \<open>
  Two requests, each given by its user identifier and its message, and a schedule that
  says which of the two takes the next step.
\<close>

datatype requester = First | Second

fun interleave ::
  "pipeline \<Rightarrow> string \<times> json \<Rightarrow> string \<times> json \<Rightarrow> requester list \<Rightarrow>
   progress \<times> progress \<times> state \<Rightarrow> progress \<times> progress \<times> state" where
  "interleave p a b [] c = c"
| "interleave p a b (First # sched) (pa, pb, s) =
     (let (pa', s') = handler_step p (fst a) (snd a) pa s
      in interleave p a b sched (pa', pb, s'))"
| "interleave p a b (Second # sched) (pa, pb, s) =
     (let (pb', s') = handler_step p (fst b) (snd b) pb s
      in interleave p a b sched (pa, pb', s'))"

section \<open>Concrete inputs\<close>

text \<open>A request that posts one message with the given User-ID header.\<close>

definition post_message :: "string \<Rightarrow> string \<Rightarrow> request" where
  "post_message u m =
     \<lparr>req_method = POST, req_user_id = Some u,
      req_json = JObj [(''messages'', JArr [JObj [(''role'', JStr ''user''), (''content'', JStr m)]])]\<rparr>"

text \<open>
  A pipeline that raises when the last turn of the conversation is the user message
  \<^verbatim>\<open>boom\<close> and answers \<^verbatim>\<open>ok\<close> otherwise.
\<close>

definition moody_pipeline :: pipeline where
  "moody_pipeline conv =
     (if conv \<noteq> [] \<and> last conv = (User, JStr ''boom'') then Inl ''generation failed''
      else Inr [''ok''])"

text \<open>A rendering of non-string values, for the concrete inputs (which hold strings only).\<close>

definition no_format :: "json \<Rightarrow> string" where
  "no_format v = []"

section \<open>Extracting the message\<close>

lemma extract_last_content:
  assumes "map_of kvs ''messages'' = Some (JArr ms)" and "ms \<noteq> []" and "last ms = JObj e"
  shows "extract_user_message (JObj kvs) =
           Inr (case map_of e ''content'' of None \<Rightarrow> JStr [] | Some v \<Rightarrow> v)"
  using assms by (simp add: extract_user_message_def)

lemma extract_no_messages:
  assumes "map_of kvs ''messages'' = None \<or> map_of kvs ''messages'' = Some (JArr [])"
  shows "extract_user_message (JObj kvs) = Inr (JStr [])"
  using assms by (auto simp: extract_user_message_def)

section \<open>The two outcomes of generation\<close>

lemma chat_message:
  assumes "req_method req = POST" and "extract_user_message (req_json req) = Inr v"
    and "py_truthy v"
  shows "chat fmt (Some p) req s =
           (Inr (fst (generate_and_store p (user_id_of req) v s)),
            snd (generate_and_store p (user_id_of req) v s))"
  using assms by (simp add: chat_def split: prod.splits)

lemma generate_failure:
  assumes "p (objects s1 h @ [(User, v)]) = Inl err"
    and "s1 = snd (create_new_conversation s)"
    and "h = (case conversation_history s u of None \<Rightarrow> next_ref s | Some r \<Rightarrow> r)"
  shows "generate_and_store p u v s = ((500, error_body err), add_user_message h v s1)"
  using assms
  by (simp add: generate_and_store_def create_new_conversation_def add_user_message_def
      Let_def split: option.splits)

lemma generate_success:
  assumes "p (objects s1 h @ [(User, v)]) = Inr rs" and "rs \<noteq> []"
    and "s1 = snd (create_new_conversation s)"
    and "h = (case conversation_history s u of None \<Rightarrow> next_ref s | Some r \<Rightarrow> r)"
  shows "generate_and_store p u v s =
           ((200, response_body (last rs)),
            (add_ai_response h (last rs) (add_user_message h v s1))
              \<lparr>conversation_history := (conversation_history s)(u \<mapsto> h)\<rparr>)"
  using assms
  by (simp add: generate_and_store_def create_new_conversation_def add_user_message_def
      add_ai_response_def Let_def split: option.splits)

text \<open>
  The object that the local variable \<^verbatim>\<open>history\<close> names holds the turns stored for the
  user: it is the stored object itself when there is one, and the new empty one otherwise.
\<close>

lemma history_object:
  assumes "wf_state s"
  shows "objects (snd (create_new_conversation s))
           (case conversation_history s u of None \<Rightarrow> next_ref s | Some r \<Rightarrow> r) =
         turns_of s u"
proof (cases "conversation_history s u")
  case None
  then show ?thesis
    by (simp add: create_new_conversation_def stored_def turns_of_def)
next
  case (Some r)
  with assms have "r \<noteq> next_ref s"
    by (auto simp: wf_state_def)
  with Some show ?thesis
    by (simp add: create_new_conversation_def stored_def turns_of_def)
qed

lemma generate_success_turns:
  assumes "wf_state s" and "p (turns_of s u @ [(User, v)]) = Inr rs" and "rs \<noteq> []"
  shows "fst (generate_and_store p u v s) = (200, response_body (last rs)) \<and>
         stored (snd (generate_and_store p u v s)) u =
           Some (turns_of s u @ [(User, v), (Assistant, JStr (last rs))])"
proof -
  let ?s1 = "snd (create_new_conversation s)"
  let ?h = "case conversation_history s u of None \<Rightarrow> next_ref s | Some r \<Rightarrow> r"
  have obj: "objects ?s1 ?h = turns_of s u"
    by (rule history_object [OF assms(1)])
  have "generate_and_store p u v s =
          ((200, response_body (last rs)),
           (add_ai_response ?h (last rs) (add_user_message ?h v ?s1))
             \<lparr>conversation_history := (conversation_history s)(u \<mapsto> ?h)\<rparr>)"
    using assms(2,3) obj by (intro generate_success) simp_all
  with obj show ?thesis
    by (simp add: stored_def add_ai_response_def add_user_message_def)
qed

lemma generate_failure_turns:
  assumes "wf_state s" and "p (turns_of s u @ [(User, v)]) = Inl err"
  shows "generate_and_store p u v s =
           ((500, error_body err),
            add_user_message
              (case conversation_history s u of None \<Rightarrow> next_ref s | Some r \<Rightarrow> r) v
              (snd (create_new_conversation s)))"
  using assms(2) history_object [OF assms(1), of u]
  by (intro generate_failure) simp_all

section \<open>Well-formed states\<close>

lemma init_state_wf: "wf_state init_state"
  by (simp add: wf_state_def init_state_def)

lemma generate_and_store_wf:
  assumes "wf_state s"
  shows "wf_state (snd (generate_and_store p u v s))"
proof -
  have below: "(case conversation_history s u of None \<Rightarrow> next_ref s | Some r \<Rightarrow> r)
                 < Suc (next_ref s)"
    using assms by (auto simp: wf_state_def less_Suc_eq split: option.splits)
  have old: "conversation_history s w = Some r \<Longrightarrow> r < Suc (next_ref s)" for w r
    using assms by (auto simp: wf_state_def less_Suc_eq)
  show ?thesis
    using below old
    by (auto simp: generate_and_store_def create_new_conversation_def add_user_message_def
        add_ai_response_def wf_state_def Let_def split: sum.splits if_splits)
qed

lemma chat_wf:
  assumes "wf_state s"
  shows "wf_state (snd (chat fmt pl req s))"
  using assms generate_and_store_wf [OF assms]
  by (simp add: chat_def case_prod_unfold Let_def split: sum.splits option.splits)

lemma run_wf: "wf_state s \<Longrightarrow> wf_state (run fmt pl reqs s)"
  by (induction reqs arbitrary: s) (simp_all add: chat_wf)

text \<open>Every state that the process reaches from its start is well-formed.\<close>

lemma reachable_wf: "wf_state (run fmt pl reqs init_state)"
  by (rule run_wf [OF init_state_wf])

section \<open>Stored conversations only grow\<close>

text \<open>
  No call of the handler removes or changes a stored turn: what was stored for a user
  before the call is an initial segment of what is stored afterwards.
\<close>

lemma generate_and_store_grows:
  assumes "wf_state s" and "stored s w = Some c"
  shows "\<exists>ys. stored (snd (generate_and_store p u v s)) w = Some (c @ ys)"
proof -
  from assms(2) obtain r where r: "conversation_history s w = Some r" "c = objects s r"
    by (auto simp: stored_def)
  with assms(1) have "r \<noteq> next_ref s"
    by (auto simp: wf_state_def)
  with r show ?thesis
    by (auto simp: generate_and_store_def create_new_conversation_def add_user_message_def
        add_ai_response_def stored_def Let_def split: sum.splits option.splits)
qed

lemma chat_stored_grows:
  assumes "wf_state s" and "stored s w = Some c"
  shows "\<exists>ys. stored (snd (chat fmt pl req s)) w = Some (c @ ys)"
proof -
  have "\<exists>ys. stored s w = Some (c @ ys)"
    using assms(2) by simp
  then show ?thesis
    using generate_and_store_grows [OF assms]
    by (simp add: chat_def case_prod_unfold Let_def split: sum.splits option.splits)
qed

section \<open>Sequences of successful calls\<close>

lemma post_message_extract:
  "extract_user_message (req_json (post_message u m)) = Inr (JStr m)"
  by (simp add: post_message_def extract_user_message_def)

lemma post_message_success:
  assumes "wf_state s" and "m \<noteq> []"
    and "p (turns_of s u @ [(User, JStr m)]) = Inr rs" and "rs \<noteq> []"
  shows "turns_of (snd (chat fmt (Some p) (post_message u m) s)) u =
           turns_of s u @ [(User, JStr m), (Assistant, JStr (last rs))]"
proof -
  have "chat fmt (Some p) (post_message u m) s =
          (Inr (fst (generate_and_store p u (JStr m) s)),
           snd (generate_and_store p u (JStr m) s))"
    using chat_message [of "post_message u m" "JStr m" fmt p s] assms(2) post_message_extract
    by (simp add: post_message_def user_id_of_def)
  then show ?thesis
    using assms(1,3,4) generate_success_turns [of s p u "JStr m" rs]
    by (simp add: turns_of_def)
qed

text \<open>
  With a pipeline that always answers, \<open>n\<close> messages of one user handled one after the
  other lengthen the stored conversation by \<open>2 * n\<close> turns.
\<close>

lemma run_two_turns_per_call:
  assumes "wf_state s" and "\<forall>c. \<exists>rs. p c = Inr rs \<and> rs \<noteq> []"
    and "\<forall>m \<in> set msgs. m \<noteq> []"
  shows "length (turns_of (run fmt (Some p) (map (post_message u) msgs) s) u) =
           length (turns_of s u) + 2 * length msgs"
  using assms(1,3)
proof (induction msgs arbitrary: s)
  case Nil
  then show ?case by simp
next
  case (Cons m msgs)
  let ?s' = "snd (chat fmt (Some p) (post_message u m) s)"
  from assms(2) obtain rs where rs: "p (turns_of s u @ [(User, JStr m)]) = Inr rs" "rs \<noteq> []"
    by blast
  from Cons.prems have m: "m \<noteq> []" and rest: "\<forall>m \<in> set msgs. m \<noteq> []"
    by simp_all
  have step: "length (turns_of ?s' u) = length (turns_of s u) + 2"
    using Cons.prems(1) m rs post_message_success [of s m p u rs fmt] by simp
  have "wf_state ?s'"
    by (rule chat_wf [OF Cons.prems(1)])
  from Cons.IH [OF this rest] step show ?case
    by simp
qed

section \<open>Evaluation on concrete inputs\<close>

lemmas handler_defs =
  chat_def generate_and_store_def create_new_conversation_def add_user_message_def
  add_ai_response_def extract_user_message_def user_id_of_def post_message_def
  init_state_def stored_def error_body_def response_body_def py_format_def
  moody_pipeline_def

lemma one_exchange:
  "run no_format (Some moody_pipeline) [post_message ''alice'' ''hello''] init_state =
     \<lparr>conversation_history = [''alice'' \<mapsto> 0],
      objects = (\<lambda>_. [])(0 := [(User, JStr ''hello''), (Assistant, JStr ''ok'')]),
      next_ref = 1\<rparr>"
  by (simp add: handler_defs Let_def)

lemma one_exchange_stored:
  "stored (run no_format (Some moody_pipeline) [post_message ''alice'' ''hello''] init_state)
     ''alice'' = Some [(User, JStr ''hello''), (Assistant, JStr ''ok'')]"
  unfolding one_exchange by (simp add: stored_def)

lemma one_exchange_wf:
  "wf_state (run no_format (Some moody_pipeline) [post_message ''alice'' ''hello''] init_state)"
  by (rule reachable_wf)

section \<open>Generation failure for a user with a stored conversation\<close>

text \<open>
  C1. The statement to check: when the pipeline raises during a request of a user who has
  a stored conversation, the conversation stored for that user is afterwards what it was
  before. The handler does not behave so. \<^verbatim>\<open>conversation_history.get\<close> returns the
  stored object itself, \<^verbatim>\<open>add_user_message\<close> appends to it before the pipeline is
  called, and the \<^verbatim>\<open>except\<close> branch does not undo that: in every well-formed state,
  after the 500 response the stored conversation is the old one followed by the user turn
  of the failed request.
\<close>

theorem chat_failure_appends_user_turn:
  assumes "wf_state s"
    and "req_method req = POST" and "req_json req = JObj kvs"
    and "map_of kvs ''messages'' = Some (JArr ms)" and "ms \<noteq> []" and "last ms = JObj e"
    and "map_of e ''content'' = Some (JStr m)" and "m \<noteq> []"
    and "stored s (user_id_of req) = Some c"
    and "p (c @ [(User, JStr m)]) = Inl err"
  shows "fst (chat fmt (Some p) req s) = Inr (500, JObj [(''error'', JStr err)]) \<and>
         stored (snd (chat fmt (Some p) req s)) (user_id_of req) = Some (c @ [(User, JStr m)])"
proof -
  let ?u = "user_id_of req"
  let ?s1 = "snd (create_new_conversation s)"
  let ?h = "case conversation_history s ?u of None \<Rightarrow> next_ref s | Some r \<Rightarrow> r"
  have msg: "extract_user_message (req_json req) = Inr (JStr m)"
    using assms(3-7) extract_last_content [of kvs ms e] by simp
  have turns: "turns_of s ?u = c"
    using assms(9) by (simp add: turns_of_def)
  have obj: "objects ?s1 ?h = c"
    using history_object [OF assms(1), of ?u] turns by simp
  have gen: "generate_and_store p ?u (JStr m) s =
               ((500, error_body err), add_user_message ?h (JStr m) ?s1)"
    using assms(1,10) turns generate_failure_turns [of s p ?u "JStr m" err] by simp
  have run: "chat fmt (Some p) req s =
               (Inr (fst (generate_and_store p ?u (JStr m) s)),
                snd (generate_and_store p ?u (JStr m) s))"
    using assms(2,8) msg by (intro chat_message) simp_all
  from assms(9) obtain r where r: "conversation_history s ?u = Some r"
    by (auto simp: stored_def)
  show ?thesis
    unfolding run gen using obj r
    by (simp add: error_body_def stored_def add_user_message_def create_new_conversation_def)
qed

theorem chat_failure_appends_user_turn_witness:
  "stored (run no_format (Some moody_pipeline) [post_message ''alice'' ''hello''] init_state)
     ''alice'' = Some [(User, JStr ''hello''), (Assistant, JStr ''ok'')] \<and>
   fst (chat no_format (Some moody_pipeline) (post_message ''alice'' ''boom'')
         (run no_format (Some moody_pipeline) [post_message ''alice'' ''hello''] init_state)) =
     Inr (500, JObj [(''error'', JStr ''generation failed'')]) \<and>
   stored (snd (chat no_format (Some moody_pipeline) (post_message ''alice'' ''boom'')
         (run no_format (Some moody_pipeline) [post_message ''alice'' ''hello''] init_state)))
     ''alice'' = Some [(User, JStr ''hello''), (Assistant, JStr ''ok''), (User, JStr ''boom'')]"
proof -
  let ?s = "run no_format (Some moody_pipeline) [post_message ''alice'' ''hello''] init_state"
  have raises: "moody_pipeline ([(User, JStr ''hello''), (Assistant, JStr ''ok'')] @
                  [(User, JStr ''boom'')]) = Inl ''generation failed''"
    by (simp add: moody_pipeline_def)
  have uid: "user_id_of (post_message ''alice'' ''boom'') = ''alice''"
    by (simp add: user_id_of_def post_message_def)
  show ?thesis
    using one_exchange_stored
      chat_failure_appends_user_turn [where s = ?s and req = "post_message ''alice'' ''boom''"
        and kvs = "[(''messages'', JArr [JObj [(''role'', JStr ''user''), (''content'', JStr ''boom'')]])]"
        and ms = "[JObj [(''role'', JStr ''user''), (''content'', JStr ''boom'')]]"
        and e = "[(''role'', JStr ''user''), (''content'', JStr ''boom'')]"
        and m = "''boom''" and p = moody_pipeline
        and c = "[(User, JStr ''hello''), (Assistant, JStr ''ok'')]"
        and err = "''generation failed''" and fmt = no_format, OF one_exchange_wf]
      raises
    by (simp add: uid) (simp add: post_message_def)
qed

section \<open>Degraded mode\<close>

text \<open>
  C2. When the pipeline failed to load, a POST request whose last message has the
  non-empty string \<open>m\<close> as content gets status 200 with the body
  \<^verbatim>\<open>{"response": "Echo: <m> (Conversational AI not loaded)"}\<close>. The response is the same
  in every state and for every User-ID header (nothing is read from the store), and the
  state is returned as it was (nothing is written).
\<close>

theorem chat_degraded_echo:
  assumes "req_method req = POST" and "req_json req = JObj kvs"
    and "map_of kvs ''messages'' = Some (JArr ms)" and "ms \<noteq> []" and "last ms = JObj e"
    and "map_of e ''content'' = Some (JStr m)" and "m \<noteq> []"
  shows "chat fmt None req s =
           (Inr (200, JObj [(''response'',
                   JStr (''Echo: '' @ m @ '' (Conversational AI not loaded)''))]), s)"
  using assms extract_last_content [of kvs ms e]
  by (simp add: chat_def py_format_def response_body_def)

theorem chat_degraded_echo_witness:
  "chat no_format None (post_message ''alice'' ''hello'')
     (run no_format (Some moody_pipeline) [post_message ''alice'' ''hello''] init_state) =
     (Inr (200, JObj [(''response'', JStr ''Echo: hello (Conversational AI not loaded)'')]),
      run no_format (Some moody_pipeline) [post_message ''alice'' ''hello''] init_state)"
  using chat_degraded_echo [where req = "post_message ''alice'' ''hello''"
      and kvs = "[(''messages'', JArr [JObj [(''role'', JStr ''user''), (''content'', JStr ''hello'')]])]"
      and ms = "[JObj [(''role'', JStr ''user''), (''content'', JStr ''hello'')]]"
      and e = "[(''role'', JStr ''user''), (''content'', JStr ''hello'')]" and m = "''hello''"
      and fmt = no_format
      and s = "run no_format (Some moody_pipeline) [post_message ''alice'' ''hello''] init_state"]
  by (simp add: post_message_def)

section \<open>Requests without a message\<close>

text \<open>
  C3. A POST request whose JSON object has no \<^verbatim>\<open>messages\<close> entry, or an empty
  \<^verbatim>\<open>messages\<close> list, or a \<^verbatim>\<open>messages\<close> list whose last element is an object with no
  content or with the empty string as content, gets status 400 with the body
  \<^verbatim>\<open>{"error": "Please provide a message"}\<close>. The result is the same whatever the
  pipeline is, loaded or not (it is not called), and the state is returned as it was, so
  every stored conversation is untouched.
\<close>

theorem chat_empty_message_rejected:
  assumes "req_method req = POST" and "req_json req = JObj kvs"
    and "map_of kvs ''messages'' = None \<or> map_of kvs ''messages'' = Some (JArr []) \<or>
         (\<exists>ms e. map_of kvs ''messages'' = Some (JArr ms) \<and> ms \<noteq> [] \<and> last ms = JObj e \<and>
            (map_of e ''content'' = None \<or> map_of e ''content'' = Some (JStr [])))"
  shows "chat fmt pl req s = (Inr (400, JObj [(''error'', JStr ''Please provide a message'')]), s)"
proof -
  have "extract_user_message (req_json req) = Inr (JStr [])"
    using assms(2,3) extract_no_messages [of kvs] extract_last_content [of kvs]
    by (elim disjE exE conjE) simp_all
  with assms(1) show ?thesis
    by (simp add: chat_def error_body_def)
qed

theorem chat_empty_message_rejected_witness:
  "stored (run no_format (Some moody_pipeline) [post_message ''alice'' ''hello''] init_state)
     ''alice'' = Some [(User, JStr ''hello''), (Assistant, JStr ''ok'')] \<and>
   chat no_format (Some moody_pipeline)
     \<lparr>req_method = POST, req_user_id = Some ''alice'', req_json = JObj [(''messages'', JArr [])]\<rparr>
     (run no_format (Some moody_pipeline) [post_message ''alice'' ''hello''] init_state) =
     (Inr (400, JObj [(''error'', JStr ''Please provide a message'')]),
      run no_format (Some moody_pipeline) [post_message ''alice'' ''hello''] init_state) \<and>
   chat no_format (Some moody_pipeline)
     \<lparr>req_method = POST, req_user_id = Some ''alice'',
      req_json = JObj [(''messages'', JArr [JObj [(''content'', JStr [])]])]\<rparr>
     (run no_format (Some moody_pipeline) [post_message ''alice'' ''hello''] init_state) =
     (Inr (400, JObj [(''error'', JStr ''Please provide a message'')]),
      run no_format (Some moody_pipeline) [post_message ''alice'' ''hello''] init_state)"
proof -
  let ?s = "run no_format (Some moody_pipeline) [post_message ''alice'' ''hello''] init_state"
  have empty_list:
    "chat no_format (Some moody_pipeline)
       \<lparr>req_method = POST, req_user_id = Some ''alice'', req_json = JObj [(''messages'', JArr [])]\<rparr>
       ?s = (Inr (400, JObj [(''error'', JStr ''Please provide a message'')]), ?s)"
    by (rule chat_empty_message_rejected [where kvs = "[(''messages'', JArr [])]"]) simp_all
  have empty_content:
    "chat no_format (Some moody_pipeline)
       \<lparr>req_method = POST, req_user_id = Some ''alice'',
        req_json = JObj [(''messages'', JArr [JObj [(''content'', JStr [])]])]\<rparr>
       ?s = (Inr (400, JObj [(''error'', JStr ''Please provide a message'')]), ?s)"
    by (rule chat_empty_message_rejected
          [where kvs = "[(''messages'', JArr [JObj [(''content'', JStr [])]])]"]) simp_all
  from one_exchange_stored empty_list empty_content show ?thesis
    by (intro conjI)
qed

section \<open>Successful calls\<close>

text \<open>
  C4. In a well-formed state, a POST request of user \<open>u\<close> whose last message has the
  non-empty string \<open>m\<close> as content, handled with a loaded pipeline that answers (it returns
  a non-empty list of generated responses, whose last element \<open>r\<close> is the reply), gets
  status 200 with the reply, and afterwards the conversation stored for \<open>u\<close> is the turns
  stored before (none for a user without an entry) followed by the user turn \<open>m\<close> and the
  assistant turn \<open>r\<close>, in this order. So the first call of a user stores exactly these two
  turns, and every later successful call adds exactly two turns at the end.
\<close>

theorem chat_success_appends_two_turns:
  assumes "wf_state s"
    and "req_method req = POST" and "req_json req = JObj kvs"
    and "map_of kvs ''messages'' = Some (JArr ms)" and "ms \<noteq> []" and "last ms = JObj e"
    and "map_of e ''content'' = Some (JStr m)" and "m \<noteq> []"
    and "p (turns_of s (user_id_of req) @ [(User, JStr m)]) = Inr rs" and "rs \<noteq> []"
  shows "fst (chat fmt (Some p) req s) = Inr (200, JObj [(''response'', JStr (last rs))]) \<and>
         stored (snd (chat fmt (Some p) req s)) (user_id_of req) =
           Some (turns_of s (user_id_of req) @ [(User, JStr m), (Assistant, JStr (last rs))])"
proof -
  let ?u = "user_id_of req"
  have msg: "extract_user_message (req_json req) = Inr (JStr m)"
    using assms(3-7) extract_last_content [of kvs ms e] by simp
  have run: "chat fmt (Some p) req s =
               (Inr (fst (generate_and_store p ?u (JStr m) s)),
                snd (generate_and_store p ?u (JStr m) s))"
    using assms(2,8) msg by (intro chat_message) simp_all
  show ?thesis
    unfolding run
    using assms(1,9,10) generate_success_turns [of s p ?u "JStr m" rs]
    by (simp add: response_body_def)
qed

theorem chat_success_appends_two_turns_witness:
  "stored (snd (chat no_format (Some moody_pipeline) (post_message ''alice'' ''hello'')
         init_state)) ''alice'' =
     Some [(User, JStr ''hello''), (Assistant, JStr ''ok'')] \<and>
   fst (chat no_format (Some moody_pipeline) (post_message ''alice'' ''again'')
         (run no_format (Some moody_pipeline) [post_message ''alice'' ''hello''] init_state)) =
     Inr (200, JObj [(''response'', JStr ''ok'')]) \<and>
   stored (snd (chat no_format (Some moody_pipeline) (post_message ''alice'' ''again'')
         (run no_format (Some moody_pipeline) [post_message ''alice'' ''hello''] init_state)))
     ''alice'' =
     Some [(User, JStr ''hello''), (Assistant, JStr ''ok''),
           (User, JStr ''again''), (Assistant, JStr ''ok'')]"
proof -
  let ?s = "run no_format (Some moody_pipeline) [post_message ''alice'' ''hello''] init_state"
  have uid: "user_id_of (post_message ''alice'' m) = ''alice''" for m
    by (simp add: user_id_of_def post_message_def)
  have none: "turns_of init_state ''alice'' = []"
    by (simp add: turns_of_def stored_def init_state_def)
  have before: "turns_of ?s ''alice'' = [(User, JStr ''hello''), (Assistant, JStr ''ok'')]"
    using one_exchange_stored by (simp add: turns_of_def)
  have first: "moody_pipeline ([] @ [(User, JStr ''hello'')]) = Inr [''ok'']"
    by (simp add: moody_pipeline_def)
  have second: "moody_pipeline ([(User, JStr ''hello''), (Assistant, JStr ''ok'')] @
                   [(User, JStr ''again'')]) = Inr [''ok'']"
    by (simp add: moody_pipeline_def)
  have call1:
    "stored (snd (chat no_format (Some moody_pipeline) (post_message ''alice'' ''hello'')
         init_state)) ''alice'' = Some [(User, JStr ''hello''), (Assistant, JStr ''ok'')]"
    using first
      chat_success_appends_two_turns [where s = init_state
        and req = "post_message ''alice'' ''hello''"
        and kvs = "[(''messages'', JArr [JObj [(''role'', JStr ''user''), (''content'', JStr ''hello'')]])]"
        and ms = "[JObj [(''role'', JStr ''user''), (''content'', JStr ''hello'')]]"
        and e = "[(''role'', JStr ''user''), (''content'', JStr ''hello'')]"
        and m = "''hello''" and p = moody_pipeline
        and rs = "[''ok'']" and fmt = no_format, OF init_state_wf]
    by (simp add: uid none) (simp add: post_message_def)
  have call2:
    "fst (chat no_format (Some moody_pipeline) (post_message ''alice'' ''again'') ?s) =
       Inr (200, JObj [(''response'', JStr ''ok'')]) \<and>
     stored (snd (chat no_format (Some moody_pipeline) (post_message ''alice'' ''again'') ?s))
       ''alice'' =
       Some [(User, JStr ''hello''), (Assistant, JStr ''ok''),
             (User, JStr ''again''), (Assistant, JStr ''ok'')]"
    using second
      chat_success_appends_two_turns [where s = ?s
        and req = "post_message ''alice'' ''again''"
        and kvs = "[(''messages'', JArr [JObj [(''role'', JStr ''user''), (''content'', JStr ''again'')]])]"
        and ms = "[JObj [(''role'', JStr ''user''), (''content'', JStr ''again'')]]"
        and e = "[(''role'', JStr ''user''), (''content'', JStr ''again'')]"
        and m = "''again''" and p = moody_pipeline
        and rs = "[''ok'']" and fmt = no_format, OF one_exchange_wf]
    by (simp add: uid before del: run.simps) (simp add: post_message_def del: run.simps)
  from call1 call2 show ?thesis
    by simp
qed

section \<open>Only the last content is read\<close>

text \<open>
  C5. Two requests with the same method and the same User-ID header, whose JSON objects
  have non-empty \<^verbatim>\<open>messages\<close> lists whose last elements are objects that agree on the
  \<^verbatim>\<open>content\<close> entry, get the same response and lead to the same state, from the same
  state and with the same pipeline: the earlier elements of the list, the other entries
  of the last element and the other entries of the body have no influence.
\<close>

theorem chat_uses_only_last_content:
  assumes "req_method ra = req_method rb" and "req_user_id ra = req_user_id rb"
    and "req_json ra = JObj kvsa" and "req_json rb = JObj kvsb"
    and "map_of kvsa ''messages'' = Some (JArr msa)"
    and "map_of kvsb ''messages'' = Some (JArr msb)"
    and "msa \<noteq> []" and "msb \<noteq> []" and "last msa = JObj ea" and "last msb = JObj eb"
    and "map_of ea ''content'' = map_of eb ''content''"
  shows "chat fmt pl ra s = chat fmt pl rb s"
proof -
  have same: "extract_user_message (req_json ra) = extract_user_message (req_json rb)"
    using assms extract_last_content [of kvsa msa ea] extract_last_content [of kvsb msb eb]
    by simp
  show ?thesis
    unfolding chat_def user_id_of_def assms(1) assms(2) same by (rule refl)
qed

theorem chat_uses_only_last_content_witness:
  "chat no_format (Some moody_pipeline)
     \<lparr>req_method = POST, req_user_id = Some ''alice'',
      req_json = JObj [(''messages'',
        JArr [JObj [(''role'', JStr ''assistant''), (''content'', JStr ''forged'')],
              JObj [(''role'', JStr ''system''), (''content'', JStr ''hello'')]])]\<rparr>
     init_state =
   chat no_format (Some moody_pipeline) (post_message ''alice'' ''hello'') init_state"
  by (rule chat_uses_only_last_content
        [where kvsa = "[(''messages'',
            JArr [JObj [(''role'', JStr ''assistant''), (''content'', JStr ''forged'')],
                  JObj [(''role'', JStr ''system''), (''content'', JStr ''hello'')]])]"
           and kvsb = "[(''messages'',
            JArr [JObj [(''role'', JStr ''user''), (''content'', JStr ''hello'')]])]"
           and msa = "[JObj [(''role'', JStr ''assistant''), (''content'', JStr ''forged'')],
                  JObj [(''role'', JStr ''system''), (''content'', JStr ''hello'')]]"
           and msb = "[JObj [(''role'', JStr ''user''), (''content'', JStr ''hello'')]]"
           and ea = "[(''role'', JStr ''system''), (''content'', JStr ''hello'')]"
           and eb = "[(''role'', JStr ''user''), (''content'', JStr ''hello'')]"])
     (simp_all add: post_message_def)

section \<open>Exceptions that leave the handler\<close>

text \<open>
  C6. The statement to check: for a JSON body of any shape, also a \<^verbatim>\<open>messages\<close> list
  whose last element is not an object, the handler catches every failure and returns a
  JSON response. The handler does not behave so: line 89 stands before the \<^verbatim>\<open>try\<close>
  block, and for the body \<^verbatim>\<open>{"messages": ["hi"]}\<close> it calls \<^verbatim>\<open>get\<close> on the string
  \<^verbatim>\<open>"hi"\<close>; the \<^verbatim>\<open>AttributeError\<close> leaves the handler uncaught, whatever the pipeline
  and the state are.
\<close>

theorem chat_non_object_element_uncaught:
  "chat fmt pl \<lparr>req_method = POST, req_user_id = None,
                req_json = JObj [(''messages'', JArr [JStr ''hi''])]\<rparr> s =
     (Inl AttributeError, s)"
  by (simp add: chat_def extract_user_message_def)

section \<open>Alternation of the stored turns\<close>

text \<open>
  C7. The statement to check: after every call every stored conversation alternates
  roles, starting with a user turn, and stored conversations only grow. The second part
  holds (\<open>chat_stored_grows\<close> above). The first does not: from the initial state, a
  successful request of a user, then one during which the pipeline raises, then another
  successful one leave a stored conversation with two user turns in a row, because the
  failed request has left its user turn in the stored object.
\<close>

theorem chat_alternation_broken:
  "stored (run no_format (Some moody_pipeline)
       [post_message ''alice'' ''hello'', post_message ''alice'' ''boom'',
        post_message ''alice'' ''again''] init_state) ''alice'' =
     Some [(User, JStr ''hello''), (Assistant, JStr ''ok''), (User, JStr ''boom''),
           (User, JStr ''again''), (Assistant, JStr ''ok'')] \<and>
   \<not> alternates [(User, JStr ''hello''), (Assistant, JStr ''ok''), (User, JStr ''boom''),
           (User, JStr ''again''), (Assistant, JStr ''ok'')]"
  by (simp add: handler_defs alternates_def Let_def)

section \<open>Two requests of one user\<close>

text \<open>
  The five steps of one request, taken with no step of the other request in between, are
  the handler: they return the response and reach the state that \<open>generate_and_store\<close>
  gives, and so those of \<open>chat\<close>.
\<close>

lemma first_alone:
  "interleave p (u, v) b [First, First, First, First, First] (AtLookup, pb, s) =
     (Returned (fst (generate_and_store p u v s)), pb, snd (generate_and_store p u v s))"
  by (simp add: generate_and_store_def create_new_conversation_def Let_def
      split: sum.splits)


lemma handler_steps_refine:
  assumes "req_method req = POST" and "extract_user_message (req_json req) = Inr v"
    and "py_truthy v" and "chat fmt (Some p) req s = (Inr resp, s')"
  shows "interleave p (user_id_of req, v) b [First, First, First, First, First]
           (AtLookup, pb, s) = (Returned resp, pb, s')"
proof -
  have "chat fmt (Some p) req s =
          (Inr (fst (generate_and_store p (user_id_of req) v s)),
           snd (generate_and_store p (user_id_of req) v s))"
    by (rule chat_message [OF assms(1-3)])
  with assms(4) have "fst (generate_and_store p (user_id_of req) v s) = resp"
    and "snd (generate_and_store p (user_id_of req) v s) = s'"
    by simp_all
  then show ?thesis
    unfolding first_alone by simp
qed





section \<open>A last element without content\<close>

text \<open>
  C9. A POST request whose \<^verbatim>\<open>messages\<close> list is non-empty and whose last element is an
  object without a \<^verbatim>\<open>content\<close> entry is answered as an empty message is: status 400
  with the body \<^verbatim>\<open>{"error": "Please provide a message"}\<close>, the same whatever the
  pipeline is (it is not called), and the state is returned as it was.
\<close>

theorem chat_missing_content_rejected:
  assumes "req_method req = POST" and "req_json req = JObj kvs"
    and "map_of kvs ''messages'' = Some (JArr ms)" and "ms \<noteq> []" and "last ms = JObj e"
    and "map_of e ''content'' = None"
  shows "chat fmt pl req s = (Inr (400, JObj [(''error'', JStr ''Please provide a message'')]), s)"
  using assms extract_last_content [of kvs ms e]
  by (simp add: chat_def error_body_def)

theorem chat_missing_content_rejected_witness:
  "chat no_format (Some moody_pipeline)
     \<lparr>req_method = POST, req_user_id = Some ''alice'',
      req_json = JObj [(''messages'', JArr [JObj [(''role'', JStr ''user'')]])]\<rparr>
     init_state =
     (Inr (400, JObj [(''error'', JStr ''Please provide a message'')]), init_state)"
  by (rule chat_missing_content_rejected
        [where kvs = "[(''messages'', JArr [JObj [(''role'', JStr ''user'')]])]"
           and ms = "[JObj [(''role'', JStr ''user'')]]" and e = "[(''role'', JStr ''user'')]"])
     simp_all

section \<open>Generation failure for a user without a stored conversation\<close>

text \<open>
  C10. In a well-formed state in which user \<open>u\<close> has no entry, when the pipeline raises
  during a POST request of \<open>u\<close> with a non-empty message, the response has status 500 and
  carries the text of the exception, the dict is afterwards what it was (so there is still
  no entry for \<open>u\<close>), and the conversation stored for every user is what it was: the user
  turn went to the new conversation object, which no entry points to.
\<close>

theorem chat_failure_new_user_frame:
  assumes "wf_state s"
    and "req_method req = POST" and "req_json req = JObj kvs"
    and "map_of kvs ''messages'' = Some (JArr ms)" and "ms \<noteq> []" and "last ms = JObj e"
    and "map_of e ''content'' = Some (JStr m)" and "m \<noteq> []"
    and "conversation_history s (user_id_of req) = None"
    and "p [(User, JStr m)] = Inl err"
  shows "fst (chat fmt (Some p) req s) = Inr (500, JObj [(''error'', JStr err)]) \<and>
         conversation_history (snd (chat fmt (Some p) req s)) = conversation_history s \<and>
         (\<forall>v. stored (snd (chat fmt (Some p) req s)) v = stored s v)"
proof -
  let ?u = "user_id_of req"
  let ?s1 = "snd (create_new_conversation s)"
  have msg: "extract_user_message (req_json req) = Inr (JStr m)"
    using assms(3-7) extract_last_content [of kvs ms e] by simp
  have gen: "generate_and_store p ?u (JStr m) s =
               ((500, error_body err), add_user_message (next_ref s) (JStr m) ?s1)"
    using assms(9,10) by (intro generate_failure) (simp_all add: create_new_conversation_def)
  have run: "chat fmt (Some p) req s =
               (Inr (fst (generate_and_store p ?u (JStr m) s)),
                snd (generate_and_store p ?u (JStr m) s))"
    using assms(2,8) msg by (intro chat_message) simp_all
  have frame: "stored (add_user_message (next_ref s) (JStr m) ?s1) v = stored s v" for v
  proof (cases "conversation_history s v")
    case None
    then show ?thesis
      by (simp add: stored_def add_user_message_def create_new_conversation_def)
  next
    case (Some r)
    with assms(1) have "r \<noteq> next_ref s"
      by (auto simp: wf_state_def)
    with Some show ?thesis
      by (simp add: stored_def add_user_message_def create_new_conversation_def)
  qed
  show ?thesis
    unfolding run gen using frame
    by (simp add: error_body_def add_user_message_def create_new_conversation_def)
qed

theorem chat_failure_new_user_frame_witness:
  "conversation_history
     (run no_format (Some moody_pipeline) [post_message ''alice'' ''hello''] init_state)
     ''bob'' = None \<and>
   fst (chat no_format (Some moody_pipeline) (post_message ''bob'' ''boom'')
         (run no_format (Some moody_pipeline) [post_message ''alice'' ''hello''] init_state)) =
     Inr (500, JObj [(''error'', JStr ''generation failed'')]) \<and>
   conversation_history
     (snd (chat no_format (Some moody_pipeline) (post_message ''bob'' ''boom'')
         (run no_format (Some moody_pipeline) [post_message ''alice'' ''hello''] init_state)))
     ''bob'' = None \<and>
   stored (snd (chat no_format (Some moody_pipeline) (post_message ''bob'' ''boom'')
         (run no_format (Some moody_pipeline) [post_message ''alice'' ''hello''] init_state)))
     ''alice'' = Some [(User, JStr ''hello''), (Assistant, JStr ''ok'')]"
proof -
  let ?s = "run no_format (Some moody_pipeline) [post_message ''alice'' ''hello''] init_state"
  have new: "conversation_history ?s ''bob'' = None"
    unfolding one_exchange by simp
  have raises: "moody_pipeline [(User, JStr ''boom'')] = Inl ''generation failed''"
    by (simp add: moody_pipeline_def)
  have uid: "user_id_of (post_message ''bob'' ''boom'') = ''bob''"
    by (simp add: user_id_of_def post_message_def)
  show ?thesis
    using one_exchange_stored new
      chat_failure_new_user_frame [where s = ?s and req = "post_message ''bob'' ''boom''"
        and kvs = "[(''messages'', JArr [JObj [(''role'', JStr ''user''), (''content'', JStr ''boom'')]])]"
        and ms = "[JObj [(''role'', JStr ''user''), (''content'', JStr ''boom'')]]"
        and e = "[(''role'', JStr ''user''), (''content'', JStr ''boom'')]"
        and m = "''boom''" and p = moody_pipeline
        and err = "''generation failed''" and fmt = no_format, OF one_exchange_wf]
      raises
    by (simp add: uid) (simp add: post_message_def)
qed

end
